theory Spec2Isabelle
  imports Main
begin

section \<open>Python values\<close>

text \<open>
  The handlers work on dynamically typed values: a query parameter is a \<open>str\<close> or
  \<open>None\<close>, a value read from the JSON body is whatever the JSON parser built. The type
  \<open>json\<close> holds all of them; \<open>JNull\<close> is Python's \<open>None\<close>. A \<open>string\<close> holds
  the characters of a Python \<open>str\<close> one \<open>char\<close> per code point, so the model covers
  texts whose code points lie below 256 (an HTTP header value is decoded that way).
\<close>

datatype pyfloat = Finite int int | PosInf | NegInf | NaN

datatype json =
    JNull
  | JBool bool
  | JInt int
  | JFloat pyfloat
  | JStr string
  | JList "json list"
  | JObj "(string \<times> json) list"

text \<open>An exception carries what \<open>str(e)\<close> returns.\<close>

datatype exn =
    ValueError string
  | AttributeError string
  | IndexError string
  | OtherError string string

fun exn_str :: "exn \<Rightarrow> string" where
  "exn_str (ValueError m) = m"
| "exn_str (AttributeError m) = m"
| "exn_str (IndexError m) = m"
| "exn_str (OtherError cls m) = m"

fun is_ValueError :: "exn \<Rightarrow> bool" where
  "is_ValueError (ValueError m) = True"
| "is_ValueError e = False"

text \<open>Truth value testing, as \<open>not x\<close>, \<open>x or y\<close> and \<open>if x\<close> apply it.\<close>

fun truthy :: "json \<Rightarrow> bool" where
  "truthy JNull = False"
| "truthy (JBool b) = b"
| "truthy (JInt i) = (i \<noteq> 0)"
| "truthy (JFloat (Finite m e)) = (m \<noteq> 0)"
| "truthy (JFloat f) = True"
| "truthy (JStr s) = (s \<noteq> [])"
| "truthy (JList xs) = (xs \<noteq> [])"
| "truthy (JObj kvs) = (kvs \<noteq> [])"

text \<open>\<open>x or y\<close> for a right operand that is already a value.\<close>

definition py_or :: "json \<Rightarrow> json \<Rightarrow> json" where
  "py_or x y = (if truthy x then x else y)"

fun py_type_name :: "json \<Rightarrow> string" where
  "py_type_name JNull = ''NoneType''"
| "py_type_name (JBool b) = ''bool''"
| "py_type_name (JInt i) = ''int''"
| "py_type_name (JFloat f) = ''float''"
| "py_type_name (JStr s) = ''str''"
| "py_type_name (JList xs) = ''list''"
| "py_type_name (JObj kvs) = ''dict''"

text \<open>
  \<open>data.get(key)\<close>: the value of the key in a dict, \<open>None\<close> when the key is missing, and
  an \<open>AttributeError\<close> on every value that is not a dict.
\<close>

fun dict_get :: "json \<Rightarrow> string \<Rightarrow> exn + json" where
  "dict_get (JObj kvs) k = Inr (case map_of kvs k of None \<Rightarrow> JNull | Some v \<Rightarrow> v)"
| "dict_get d k =
     Inl (AttributeError ([CHR 0x27] @ py_type_name d @ [CHR 0x27] @ '' object has no attribute '' @ [CHR 0x27] @ ''get'' @ [CHR 0x27]))"

section \<open>String operations of the source\<close>

definition startswith :: "string \<Rightarrow> string \<Rightarrow> bool" where
  "startswith s p = (take (length p) s = p)"

text \<open>The characters \<open>str.strip()\<close> and \<open>int()\<close> treat as whitespace, below code point 256.\<close>

definition py_isspace :: "char \<Rightarrow> bool" where
  "py_isspace c = ((of_char c :: nat) \<in> {9, 10, 11, 12, 13, 28, 29, 30, 31, 32, 133, 160})"

definition strip :: "string \<Rightarrow> string" where
  "strip s = rev (dropWhile py_isspace (rev (dropWhile py_isspace s)))"

text \<open>\<open>s.split(sep, 1)\<close> for a separator of one character.\<close>

fun split1 :: "char \<Rightarrow> string \<Rightarrow> string list" where
  "split1 sep s =
     (if sep \<in> set s
      then [takeWhile (\<lambda>c. c \<noteq> sep) s, tl (dropWhile (\<lambda>c. c \<noteq> sep) s)]
      else [s])"

text \<open>\<open>s.split(sep)\<close> for a separator of one character: never an empty list.\<close>

fun split :: "char \<Rightarrow> string \<Rightarrow> string list" where
  "split sep [] = [[]]"
| "split sep (c # cs) =
     (if c = sep then [] # split sep cs
      else (case split sep cs of
              [] \<Rightarrow> [[c]]
            | w # ws \<Rightarrow> (c # w) # ws))"

text \<open>\<open>xs[i]\<close> for a non-negative index, and \<open>xs[-1]\<close>.\<close>

definition index :: "'a list \<Rightarrow> nat \<Rightarrow> exn + 'a" where
  "index xs i = (if i < length xs then Inr (xs ! i) else Inl (IndexError ''list index out of range''))"

definition index_last :: "'a list \<Rightarrow> exn + 'a" where
  "index_last xs = (if xs = [] then Inl (IndexError ''list index out of range'') else Inr (last xs))"

section \<open>The builtin int() on a str\<close>

definition is_digit :: "char \<Rightarrow> bool" where
  "is_digit c = (48 \<le> (of_char c :: nat) \<and> (of_char c :: nat) \<le> 57)"

definition digit_val :: "char \<Rightarrow> nat" where
  "digit_val c = of_char c - 48"

text \<open>
  The digits after the first one: a single underscore may stand between two digits.
\<close>

fun scan_digits :: "nat \<Rightarrow> string \<Rightarrow> nat option" where
  "scan_digits acc [] = Some acc"
| "scan_digits acc [c] = (if is_digit c then Some (10 * acc + digit_val c) else None)"
| "scan_digits acc (c # d # ds) =
     (if is_digit c then scan_digits (10 * acc + digit_val c) (d # ds)
      else if c = CHR ''_'' \<and> is_digit d then scan_digits (10 * acc + digit_val d) ds
      else None)"

definition parse_digits :: "string \<Rightarrow> nat option" where
  "parse_digits s =
     (case s of
        [] \<Rightarrow> None
      | c # cs \<Rightarrow> if is_digit c then scan_digits (digit_val c) cs else None)"

text \<open>
  \<open>int(s)\<close> in base 10: surrounding whitespace is dropped, one sign is allowed, and a
  literal of more than \<open>max_digits\<close> digits is refused when that limit is not 0 (the
  interpreter's \<open>int_max_str_digits\<close>; 0 switches the limit off).
\<close>

definition py_int :: "nat \<Rightarrow> (json \<Rightarrow> string) \<Rightarrow> string \<Rightarrow> exn + int" where
  "py_int max_digits repr s =
     (let t = strip s;
          neg = (t \<noteq> [] \<and> hd t = CHR ''-'');
          body = (if t \<noteq> [] \<and> (hd t = CHR ''-'' \<or> hd t = CHR ''+'') then tl t else t)
      in case parse_digits body of
           None \<Rightarrow> Inl (ValueError (''invalid literal for int() with base 10: '' @ repr (JStr s)))
         | Some n \<Rightarrow>
             if 0 < max_digits \<and> max_digits < length (filter is_digit body)
             then Inl (ValueError ''Exceeds the limit for integer string conversion'')
             else Inr (if neg then - int n else int n))"

section \<open>Requests, responses and the vendor SDK\<close>

text \<open>
  What a handler reads of the incoming request: \<open>request.method\<close>, the value of
  \<open>request.headers.get("Authorization")\<close> (\<open>None\<close> when the header is missing), the
  query parameters \<open>request.args\<close> in order (\<open>get\<close> returns the first value of a key),
  and the result of \<open>request.get_json(silent=True)\<close>, which is \<open>JNull\<close> when the body
  is missing or does not parse: with \<open>silent=True\<close> the call returns \<open>None\<close> instead
  of raising, so the \<open>except Exception\<close> around it in two of the files is never entered.
\<close>

record request =
  http_method :: string
  authorization :: "string option"
  args :: "(string \<times> string) list"
  get_json :: json

text \<open>
  A handler returns the tuple (body, status, headers). The body is either a literal text
  or \<open>json.dumps\<close> of a value; headers are a dict in insertion order.
\<close>

datatype body = Text string | Dumps json

type_synonym response = "body \<times> nat \<times> (string \<times> string) list"

record credentials =
  token :: string
  scopes :: "string list option"

record property_summary =
  property_name :: string
  property_display_name :: string

record account_summary =
  account :: string
  display_name :: string
  property_summaries :: "property_summary list"

record metric_value =
  "value" :: string

record row =
  metric_values :: "metric_value list"

record run_report_response =
  rows :: "row list"

text \<open>The keyword arguments of \<open>RunReportRequest(...)\<close>.\<close>

record run_report_request =
  property :: string
  metrics :: "string list"
  date_ranges :: "(json \<times> json) list"

text \<open>
  The vendor SDK and the parts of the interpreter the handlers call but do not define are
  parameters: the client constructors (credentials \<open>None\<close> is the call without the
  \<open>credentials\<close> argument), the request constructor, the two API calls, each of which may
  raise, \<open>repr\<close> of a value, \<open>traceback.format_exc()\<close> for the exception being handled
  and the digit limit of \<open>int()\<close>.
\<close>

record env =
  AnalyticsAdminServiceClient :: "credentials option \<Rightarrow> exn option"
  list_account_summaries :: "credentials option \<Rightarrow> exn + account_summary list"
  BetaAnalyticsDataClient :: "credentials option \<Rightarrow> exn option"
  RunReportRequest :: "run_report_request \<Rightarrow> exn option"
  run_report :: "credentials option \<Rightarrow> run_report_request \<Rightarrow> exn + run_report_response"
  py_repr :: "json \<Rightarrow> string"
  format_exc :: "exn \<Rightarrow> string"
  int_max_str_digits :: nat

text \<open>The vendor SDK calls a handler issued, in order.\<close>

datatype call =
    New_Admin_Client "credentials option"
  | List_Account_Summaries "credentials option"
  | New_Data_Client "credentials option"
  | New_Run_Report_Request run_report_request
  | Run_Report "credentials option" run_report_request

text \<open>
  The result of a handler: the response it returned or the exception it let escape,
  together with the calls it issued.
\<close>

type_synonym outcome = "(exn + response) \<times> call list"

text \<open>\<open>request.args.get(key) if request.args else None\<close>\<close>

definition args_get :: "request \<Rightarrow> string \<Rightarrow> json" where
  "args_get request k =
     (if args request \<noteq> []
      then (case map_of (args request) k of None \<Rightarrow> JNull | Some v \<Rightarrow> JStr v)
      else JNull)"

text \<open>A value inside an f-string: a \<open>str\<close> as it is, anything else through \<open>str()\<close>.\<close>

definition format_value :: "env \<Rightarrow> json \<Rightarrow> string" where
  "format_value env v = (case v of JStr s \<Rightarrow> s | _ \<Rightarrow> py_repr env v)"

text \<open>\<open>int(response.rows[0].metric_values[0].value)\<close>\<close>

definition first_metric_int :: "env \<Rightarrow> run_report_response \<Rightarrow> exn + int" where
  "first_metric_int env response =
     (case index (rows response) 0 of
        Inl e \<Rightarrow> Inl e
      | Inr r \<Rightarrow>
          (case index (metric_values r) 0 of
             Inl e \<Rightarrow> Inl e
           | Inr mv \<Rightarrow> py_int (int_max_str_digits env) (py_repr env) (value mv)))"

section \<open>main.py\<close>

definition cors_headers :: "(string \<times> string) list" where
  "cors_headers =
     [(''Content-Type'', ''application/json''),
      (''Access-Control-Allow-Origin'', ''*''),
      (''Access-Control-Allow-Headers'', ''Authorization, Content-Type''),
      (''Access-Control-Allow-Methods'', ''GET, POST, OPTIONS'')]"

definition handle_preflight :: "request \<Rightarrow> response option" where
  "handle_preflight request =
     (if http_method request = ''OPTIONS'' then Some (Text [], 204, cors_headers) else None)"

definition main_get_user_credentials_from_request :: "request \<Rightarrow> exn + credentials \<times> string" where
  "main_get_user_credentials_from_request request =
     (let auth_header = (case authorization request of None \<Rightarrow> [] | Some h \<Rightarrow> h)
      in if \<not> startswith auth_header ''Bearer ''
         then Inl (ValueError ''Missing/invalid Authorization header. Use: Bearer <ACCESS_TOKEN>'')
         else (case index (split1 CHR '' '' auth_header) 1 of
                 Inl e \<Rightarrow> Inl e
               | Inr rest \<Rightarrow>
                   (let tok = strip rest
                    in if tok = [] then Inl (ValueError ''Empty bearer token.'')
                       else Inr (\<lparr>token = tok,
                                  scopes = Some [''https://www.googleapis.com/auth/analytics.readonly'']\<rparr>,
                                 tok))))"

text \<open>
  The two nested loops over the account summaries, with the lists they append to. The
  four copies of this loop in the repository are the same text.
\<close>

definition property_entry :: "property_summary \<Rightarrow> exn + json" where
  "property_entry prop_summary =
     (case index_last (split CHR ''/'' (property_name prop_summary)) of
        Inl e \<Rightarrow> Inl e
      | Inr prop_id \<Rightarrow>
          Inr (JObj [(''property'', JStr (property_name prop_summary)),
                     (''propertyId'', JStr prop_id),
                     (''displayName'', JStr (property_display_name prop_summary))]))"

fun properties_loop :: "json list \<Rightarrow> property_summary list \<Rightarrow> exn + json list" where
  "properties_loop acc [] = Inr acc"
| "properties_loop acc (prop_summary # rest) =
     (case property_entry prop_summary of
        Inl e \<Rightarrow> Inl e
      | Inr entry \<Rightarrow> properties_loop (acc @ [entry]) rest)"

definition account_entry :: "account_summary \<Rightarrow> exn + json" where
  "account_entry summary =
     (case properties_loop [] (property_summaries summary) of
        Inl e \<Rightarrow> Inl e
      | Inr props \<Rightarrow>
          Inr (JObj [(''account'', JStr (account summary)),
                     (''displayName'', JStr (display_name summary)),
                     (''properties'', JList props)]))"

fun accounts_loop :: "json list \<Rightarrow> account_summary list \<Rightarrow> exn + json list" where
  "accounts_loop accounts_data [] = Inr accounts_data"
| "accounts_loop accounts_data (summary # rest) =
     (case account_entry summary of
        Inl e \<Rightarrow> Inl e
      | Inr entry \<Rightarrow> accounts_loop (accounts_data @ [entry]) rest)"

text \<open>
  The \<open>try\<close> block of \<open>ga4_list_accounts_oauth\<close>: its value when it returns, or the
  exception that reaches the \<open>except Exception\<close> clause.
\<close>

definition list_accounts_oauth_try :: "env \<Rightarrow> request \<Rightarrow> (exn + response) \<times> call list" where
  "list_accounts_oauth_try env request =
     (case main_get_user_credentials_from_request request of
        Inl e \<Rightarrow> (Inl e, [])
      | Inr (user_creds, tok) \<Rightarrow>
          (case AnalyticsAdminServiceClient env (Some user_creds) of
             Some e \<Rightarrow> (Inl e, [New_Admin_Client (Some user_creds)])
           | None \<Rightarrow>
               (case list_account_summaries env (Some user_creds) of
                  Inl e \<Rightarrow>
                    (Inl e, [New_Admin_Client (Some user_creds), List_Account_Summaries (Some user_creds)])
                | Inr summaries \<Rightarrow>
                    (case accounts_loop [] summaries of
                       Inl e \<Rightarrow>
                         (Inl e, [New_Admin_Client (Some user_creds), List_Account_Summaries (Some user_creds)])
                     | Inr accounts_data \<Rightarrow>
                         (Inr (Dumps (JObj [(''accounts'', JList accounts_data)]), 200, cors_headers),
                          [New_Admin_Client (Some user_creds), List_Account_Summaries (Some user_creds)])))))"

definition ga4_list_accounts_oauth :: "env \<Rightarrow> request \<Rightarrow> outcome" where
  "ga4_list_accounts_oauth env request =
     (if http_method request = ''OPTIONS'' then (Inr (Text [], 204, cors_headers), [])
      else (case list_accounts_oauth_try env request of
              (Inr resp, calls) \<Rightarrow> (Inr resp, calls)
            | (Inl e, calls) \<Rightarrow>
                (Inr (Dumps (JObj [(''error'', JStr (exn_str e)),
                                   (''traceback'', JStr (format_exc env e))]),
                      500, cors_headers),
                 calls)))"

text \<open>
  \<open>ga4_property_sessions_oauth\<close>, in the order of its text: the parameters (query string,
  then the JSON body when \<open>property_id\<close> is not in the query string), the report, the
  handler. \<open>property_id or data.get(...)\<close> evaluates its right operand only when the left
  one is falsy, and so do the two lines after it.
\<close>

definition main_read_params :: "request \<Rightarrow> exn + json \<times> json \<times> json" where
  "main_read_params request =
     (let property_id = args_get request ''property_id'';
          start_date = args_get request ''start_date'';
          end_date = args_get request ''end_date''
      in if \<not> truthy property_id
         then (let data = py_or (get_json request) (JObj [])
               in case (if truthy property_id then Inr property_id
                        else dict_get data ''property_id'') of
                    Inl e \<Rightarrow> Inl e
                  | Inr property_id' \<Rightarrow>
                      (case (if truthy start_date then Inr start_date
                             else dict_get data ''start_date'') of
                         Inl e \<Rightarrow> Inl e
                       | Inr start_date' \<Rightarrow>
                           (case (if truthy end_date then Inr end_date
                                  else dict_get data ''end_date'') of
                              Inl e \<Rightarrow> Inl e
                            | Inr end_date' \<Rightarrow> Inr (property_id', start_date', end_date'))))
         else Inr (property_id, start_date, end_date))"

definition main_total_sessions :: "env \<Rightarrow> run_report_response \<Rightarrow> exn + int" where
  "main_total_sessions env response =
     (if rows response \<noteq> [] then first_metric_int env response else Inr 0)"

definition main_report ::
  "env \<Rightarrow> credentials \<Rightarrow> json \<Rightarrow> json \<Rightarrow> json \<Rightarrow> (exn + json) \<times> call list" where
  "main_report env user_creds property_id start_date end_date =
     (case BetaAnalyticsDataClient env (Some user_creds) of
        Some e \<Rightarrow> (Inl e, [New_Data_Client (Some user_creds)])
      | None \<Rightarrow>
          (let request_body =
                 \<lparr>property = ''properties/'' @ format_value env property_id,
                  metrics = [''sessions''],
                  date_ranges = [(start_date, end_date)]\<rparr>;
               calls = [New_Data_Client (Some user_creds), New_Run_Report_Request request_body]
           in case RunReportRequest env request_body of
                Some e \<Rightarrow> (Inl e, calls)
              | None \<Rightarrow>
                  (case run_report env (Some user_creds) request_body of
                     Inl e \<Rightarrow> (Inl e, calls @ [Run_Report (Some user_creds) request_body])
                   | Inr response \<Rightarrow>
                       (case main_total_sessions env response of
                          Inl e \<Rightarrow> (Inl e, calls @ [Run_Report (Some user_creds) request_body])
                        | Inr total_sessions \<Rightarrow>
                            (Inr (JObj [(''propertyId'', property_id),
                                        (''dateRange'', JObj [(''start_date'', start_date),
                                                              (''end_date'', end_date)]),
                                        (''metrics'', JObj [(''sessions'', JInt total_sessions)])]),
                             calls @ [Run_Report (Some user_creds) request_body])))))"

definition ga4_property_sessions_oauth :: "env \<Rightarrow> request \<Rightarrow> outcome" where
  "ga4_property_sessions_oauth env request =
     (case handle_preflight request of
        Some pre \<Rightarrow> (Inr pre, [])
      | None \<Rightarrow>
          (case main_get_user_credentials_from_request request of
             Inl e \<Rightarrow>
               (if is_ValueError e
                then (Inr (Dumps (JObj [(''error'', JStr (exn_str e))]), 401, cors_headers), [])
                else (Inl e, []))
           | Inr (user_creds, tok) \<Rightarrow>
               (case main_read_params request of
                  Inl e \<Rightarrow> (Inl e, [])
                | Inr (property_id, start_date, end_date) \<Rightarrow>
                    if \<not> truthy property_id
                    then (Inr (Dumps (JObj [(''error'', JStr ''Missing required parameter: property_id'')]),
                               400, cors_headers), [])
                    else (case main_report env user_creds property_id
                                 (py_or start_date (JStr ''30daysAgo''))
                                 (py_or end_date (JStr ''today'')) of
                            (Inl e, calls) \<Rightarrow> (Inl e, calls)
                          | (Inr result, calls) \<Rightarrow>
                              (Inr (Dumps result, 200, cors_headers), calls)))))"

section \<open>main_oauth.py\<close>

definition json_headers :: "(string \<times> string) list" where
  "json_headers = [(''Content-Type'', ''application/json'')]"

definition oauth_get_user_credentials_from_request :: "request \<Rightarrow> exn + credentials \<times> string" where
  "oauth_get_user_credentials_from_request request =
     (let auth_header = (case authorization request of None \<Rightarrow> [] | Some h \<Rightarrow> h)
      in if \<not> startswith auth_header ''Bearer ''
         then Inl (ValueError (''Missing or invalid Authorization header. Expected: '' @ [CHR 0x27]
                               @ ''Authorization: Bearer <ACCESS_TOKEN>'' @ [CHR 0x27]))
         else (case index (split1 CHR '' '' auth_header) 1 of
                 Inl e \<Rightarrow> Inl e
               | Inr rest \<Rightarrow>
                   (let tok = strip rest
                    in if tok = [] then Inl (ValueError ''Empty bearer token in Authorization header.'')
                       else Inr (\<lparr>token = tok, scopes = None\<rparr>, tok))))"

definition ga4_list_accounts :: "env \<Rightarrow> request \<Rightarrow> outcome" where
  "ga4_list_accounts env request =
     (case oauth_get_user_credentials_from_request request of
        Inl e \<Rightarrow>
          (if is_ValueError e
           then (Inr (Dumps (JObj [(''error'', JStr (exn_str e))]), 401, json_headers), [])
           else (Inl e, []))
      | Inr (user_creds, tok) \<Rightarrow>
          (case AnalyticsAdminServiceClient env (Some user_creds) of
             Some e \<Rightarrow> (Inl e, [New_Admin_Client (Some user_creds)])
           | None \<Rightarrow>
               (case list_account_summaries env (Some user_creds) of
                  Inl e \<Rightarrow>
                    (Inl e, [New_Admin_Client (Some user_creds), List_Account_Summaries (Some user_creds)])
                | Inr summaries \<Rightarrow>
                    (case accounts_loop [] summaries of
                       Inl e \<Rightarrow>
                         (Inl e, [New_Admin_Client (Some user_creds), List_Account_Summaries (Some user_creds)])
                     | Inr accounts_data \<Rightarrow>
                         (Inr (Dumps (JObj [(''accounts'', JList accounts_data)]), 200, json_headers),
                          [New_Admin_Client (Some user_creds), List_Account_Summaries (Some user_creds)])))))"

definition oauth_read_params :: "request \<Rightarrow> exn + json \<times> json \<times> json" where
  "oauth_read_params request =
     (let property_id = args_get request ''property_id'';
          start_date = args_get request ''start_date'';
          end_date = args_get request ''end_date''
      in if \<not> truthy property_id
         then (let data = py_or (get_json request) (JObj [])
               in case (if truthy property_id then Inr property_id
                        else dict_get data ''property_id'') of
                    Inl e \<Rightarrow> Inl e
                  | Inr property_id' \<Rightarrow>
                      (case (if truthy start_date then Inr start_date
                             else dict_get data ''start_date'') of
                         Inl e \<Rightarrow> Inl e
                       | Inr start_date' \<Rightarrow>
                           (case (if truthy end_date then Inr end_date
                                  else dict_get data ''end_date'') of
                              Inl e \<Rightarrow> Inl e
                            | Inr end_date' \<Rightarrow> Inr (property_id', start_date', end_date'))))
         else Inr (property_id, start_date, end_date))"

definition oauth_total_sessions :: "env \<Rightarrow> run_report_response \<Rightarrow> exn + int" where
  "oauth_total_sessions env response =
     (if \<not> (rows response \<noteq> []) then Inr 0 else first_metric_int env response)"

definition oauth_report ::
  "env \<Rightarrow> credentials \<Rightarrow> json \<Rightarrow> json \<Rightarrow> json \<Rightarrow> (exn + json) \<times> call list" where
  "oauth_report env user_creds property_id start_date end_date =
     (case BetaAnalyticsDataClient env (Some user_creds) of
        Some e \<Rightarrow> (Inl e, [New_Data_Client (Some user_creds)])
      | None \<Rightarrow>
          (let request_body =
                 \<lparr>property = ''properties/'' @ format_value env property_id,
                  metrics = [''sessions''],
                  date_ranges = [(start_date, end_date)]\<rparr>;
               calls = [New_Data_Client (Some user_creds), New_Run_Report_Request request_body]
           in case RunReportRequest env request_body of
                Some e \<Rightarrow> (Inl e, calls)
              | None \<Rightarrow>
                  (case run_report env (Some user_creds) request_body of
                     Inl e \<Rightarrow> (Inl e, calls @ [Run_Report (Some user_creds) request_body])
                   | Inr response \<Rightarrow>
                       (case oauth_total_sessions env response of
                          Inl e \<Rightarrow> (Inl e, calls @ [Run_Report (Some user_creds) request_body])
                        | Inr total_sessions \<Rightarrow>
                            (Inr (JObj [(''propertyId'', property_id),
                                        (''dateRange'', JObj [(''start_date'', start_date),
                                                              (''end_date'', end_date)]),
                                        (''metrics'', JObj [(''sessions'', JInt total_sessions)])]),
                             calls @ [Run_Report (Some user_creds) request_body])))))"

definition ga4_property_sessions :: "env \<Rightarrow> request \<Rightarrow> outcome" where
  "ga4_property_sessions env request =
     (case oauth_get_user_credentials_from_request request of
        Inl e \<Rightarrow>
          (if is_ValueError e
           then (Inr (Dumps (JObj [(''error'', JStr (exn_str e))]), 401, json_headers), [])
           else (Inl e, []))
      | Inr (user_creds, tok) \<Rightarrow>
          (case oauth_read_params request of
             Inl e \<Rightarrow> (Inl e, [])
           | Inr (property_id, start_date, end_date) \<Rightarrow>
               if \<not> truthy property_id
               then (Inr (Dumps (JObj [(''error'', JStr ''Missing required parameter: property_id'')]),
                          400, json_headers), [])
               else (case oauth_report env user_creds property_id
                            (if \<not> truthy start_date then JStr ''30daysAgo'' else start_date)
                            (if \<not> truthy end_date then JStr ''today'' else end_date) of
                       (Inl e, calls) \<Rightarrow> (Inl e, calls)
                     | (Inr result, calls) \<Rightarrow>
                         (Inr (Dumps result, 200, json_headers), calls))))"

section \<open>main_old.py\<close>

text \<open>The handlers of this file build their clients without credentials.\<close>

definition old_ga4_list_accounts :: "env \<Rightarrow> request \<Rightarrow> outcome" where
  "old_ga4_list_accounts env request =
     (case AnalyticsAdminServiceClient env None of
        Some e \<Rightarrow> (Inl e, [New_Admin_Client None])
      | None \<Rightarrow>
          (case list_account_summaries env None of
             Inl e \<Rightarrow> (Inl e, [New_Admin_Client None, List_Account_Summaries None])
           | Inr summaries \<Rightarrow>
               (case accounts_loop [] summaries of
                  Inl e \<Rightarrow> (Inl e, [New_Admin_Client None, List_Account_Summaries None])
                | Inr accounts_data \<Rightarrow>
                    (Inr (Dumps (JObj [(''accounts'', JList accounts_data)]), 200, json_headers),
                     [New_Admin_Client None, List_Account_Summaries None]))))"

definition old_read_params :: "request \<Rightarrow> exn + json \<times> json \<times> json" where
  "old_read_params request =
     (let property_id = args_get request ''property_id'';
          start_date = args_get request ''start_date'';
          end_date = args_get request ''end_date''
      in if \<not> truthy property_id
         then (let data = py_or (get_json request) (JObj [])
               in case (if truthy property_id then Inr property_id
                        else dict_get data ''property_id'') of
                    Inl e \<Rightarrow> Inl e
                  | Inr property_id' \<Rightarrow>
                      (case (if truthy start_date then Inr start_date
                             else dict_get data ''start_date'') of
                         Inl e \<Rightarrow> Inl e
                       | Inr start_date' \<Rightarrow>
                           (case (if truthy end_date then Inr end_date
                                  else dict_get data ''end_date'') of
                              Inl e \<Rightarrow> Inl e
                            | Inr end_date' \<Rightarrow> Inr (property_id', start_date', end_date'))))
         else Inr (property_id, start_date, end_date))"

definition old_total_sessions :: "env \<Rightarrow> run_report_response \<Rightarrow> exn + int" where
  "old_total_sessions env response =
     (if \<not> (rows response \<noteq> []) then Inr 0 else first_metric_int env response)"

definition old_report :: "env \<Rightarrow> json \<Rightarrow> json \<Rightarrow> json \<Rightarrow> (exn + json) \<times> call list" where
  "old_report env property_id start_date end_date =
     (case BetaAnalyticsDataClient env None of
        Some e \<Rightarrow> (Inl e, [New_Data_Client None])
      | None \<Rightarrow>
          (let request_body =
                 \<lparr>property = ''properties/'' @ format_value env property_id,
                  metrics = [''sessions''],
                  date_ranges = [(start_date, end_date)]\<rparr>;
               calls = [New_Data_Client None, New_Run_Report_Request request_body]
           in case RunReportRequest env request_body of
                Some e \<Rightarrow> (Inl e, calls)
              | None \<Rightarrow>
                  (case run_report env None request_body of
                     Inl e \<Rightarrow> (Inl e, calls @ [Run_Report None request_body])
                   | Inr response \<Rightarrow>
                       (case old_total_sessions env response of
                          Inl e \<Rightarrow> (Inl e, calls @ [Run_Report None request_body])
                        | Inr total_sessions \<Rightarrow>
                            (Inr (JObj [(''propertyId'', property_id),
                                        (''dateRange'', JObj [(''start_date'', start_date),
                                                              (''end_date'', end_date)]),
                                        (''metrics'', JObj [(''sessions'', JInt total_sessions)])]),
                             calls @ [Run_Report None request_body])))))"

definition old_ga4_property_sessions :: "env \<Rightarrow> request \<Rightarrow> outcome" where
  "old_ga4_property_sessions env request =
     (case old_read_params request of
        Inl e \<Rightarrow> (Inl e, [])
      | Inr (property_id, start_date, end_date) \<Rightarrow>
          if \<not> truthy property_id
          then (Inr (Dumps (JObj [(''error'', JStr ''Missing required parameter: property_id'')]),
                     400, json_headers), [])
          else (case old_report env property_id
                       (if \<not> truthy start_date then JStr ''30daysAgo'' else start_date)
                       (if \<not> truthy end_date then JStr ''today'' else end_date) of
                  (Inl e, calls) \<Rightarrow> (Inl e, calls)
                | (Inr result, calls) \<Rightarrow>
                    (Inr (Dumps result, 200, json_headers), calls)))"

section \<open>sessions.py and accounts.py\<close>


definition accounts_main :: "env \<Rightarrow> (exn + json) \<times> call list" where
  "accounts_main env =
     (case AnalyticsAdminServiceClient env None of
        Some e \<Rightarrow> (Inl e, [New_Admin_Client None])
      | None \<Rightarrow>
          (case list_account_summaries env None of
             Inl e \<Rightarrow> (Inl e, [New_Admin_Client None, List_Account_Summaries None])
           | Inr summaries \<Rightarrow>
               (case accounts_loop [] summaries of
                  Inl e \<Rightarrow> (Inl e, [New_Admin_Client None, List_Account_Summaries None])
                | Inr accounts_data \<Rightarrow>
                    (Inr (JObj [(''accounts'', JList accounts_data)]),
                     [New_Admin_Client None, List_Account_Summaries None]))))"

section \<open>The notions the specification uses\<close>

text \<open>
  The Authorization header as the handlers read it, and the condition under which the
  bearer-token handlers accept it: it starts with \<open>Bearer \<close> and what follows is not
  empty once the whitespace around it is stripped.
\<close>

definition auth_header_of :: "request \<Rightarrow> string" where
  "auth_header_of request = (case authorization request of None \<Rightarrow> [] | Some h \<Rightarrow> h)"

definition bearer_token :: "request \<Rightarrow> string" where
  "bearer_token request = strip (drop 7 (auth_header_of request))"

definition valid_bearer :: "request \<Rightarrow> bool" where
  "valid_bearer request =
     (startswith (auth_header_of request) ''Bearer '' \<and> bearer_token request \<noteq> [])"

text \<open>
  A parameter is supplied in the query string when its value there is truthy, and in the
  JSON body when the body is an object that holds a truthy value for it.
\<close>

definition in_query :: "request \<Rightarrow> string \<Rightarrow> bool" where
  "in_query request k = truthy (args_get request k)"

definition in_body :: "request \<Rightarrow> string \<Rightarrow> bool" where
  "in_body request k =
     (case get_json request of
        JObj kvs \<Rightarrow> (case map_of kvs k of None \<Rightarrow> False | Some v \<Rightarrow> truthy v)
      | _ \<Rightarrow> False)"

text \<open>
  The body the handlers can read parameters from: an object, or a body that is missing or
  falsy and therefore replaced by the empty object.
\<close>

definition body_params :: "request \<Rightarrow> (string \<times> json) list option" where
  "body_params request =
     (case get_json request of
        JObj kvs \<Rightarrow> Some kvs
      | b \<Rightarrow> if truthy b then None else Some [])"

definition lookup_param :: "(string \<times> json) list \<Rightarrow> string \<Rightarrow> json" where
  "lookup_param kvs k = (case map_of kvs k of None \<Rightarrow> JNull | Some v \<Rightarrow> v)"

text \<open>The part of a text after its last occurrence of a character.\<close>

definition substring_after_last :: "char \<Rightarrow> string \<Rightarrow> string" where
  "substring_after_last sep s = rev (takeWhile (\<lambda>c. c \<noteq> sep) (rev s))"

text \<open>The entries of the accounts listing, as the specification describes them.\<close>

definition spec_property_json :: "property_summary \<Rightarrow> json" where
  "spec_property_json p =
     JObj [(''property'', JStr (property_name p)),
           (''propertyId'', JStr (substring_after_last CHR ''/'' (property_name p))),
           (''displayName'', JStr (property_display_name p))]"

definition spec_account_json :: "account_summary \<Rightarrow> json" where
  "spec_account_json a =
     JObj [(''account'', JStr (account a)),
           (''displayName'', JStr (display_name a)),
           (''properties'', JList (map spec_property_json (property_summaries a)))]"

text \<open>
  The session count a response reports: 0 without rows, otherwise the integer the first
  metric value of the first row denotes, when there is one.
\<close>

definition reported_sessions :: "env \<Rightarrow> run_report_response \<Rightarrow> int option" where
  "reported_sessions env response =
     (case rows response of
        [] \<Rightarrow> Some 0
      | r # rs \<Rightarrow>
          (case metric_values r of
             [] \<Rightarrow> None
           | mv # mvs \<Rightarrow>
               (case py_int (int_max_str_digits env) (py_repr env) (value mv) of
                  Inl e \<Rightarrow> None
                | Inr n \<Rightarrow> Some n)))"

text \<open>Status, body and headers of an outcome that is a response.\<close>

definition status_of :: "outcome \<Rightarrow> nat option" where
  "status_of out = (case fst out of Inl e \<Rightarrow> None | Inr (b, st, hs) \<Rightarrow> Some st)"

definition body_of :: "outcome \<Rightarrow> body option" where
  "body_of out = (case fst out of Inl e \<Rightarrow> None | Inr (b, st, hs) \<Rightarrow> Some b)"

definition headers_of :: "outcome \<Rightarrow> (string \<times> string) list option" where
  "headers_of out = (case fst out of Inl e \<Rightarrow> None | Inr (b, st, hs) \<Rightarrow> Some hs)"

definition raised_of :: "outcome \<Rightarrow> exn option" where
  "raised_of out = (case fst out of Inl e \<Rightarrow> Some e | Inr r \<Rightarrow> None)"


text \<open>
  The credentials a bearer-token handler builds from an accepted header: main.py passes
  the read-only scope, main_oauth.py passes the token alone.
\<close>

definition main_creds :: "request \<Rightarrow> credentials" where
  "main_creds request =
     \<lparr>token = bearer_token request,
      scopes = Some [''https://www.googleapis.com/auth/analytics.readonly'']\<rparr>"

definition oauth_creds :: "request \<Rightarrow> credentials" where
  "oauth_creds request = \<lparr>token = bearer_token request, scopes = None\<rparr>"

section \<open>Sample inputs\<close>

definition sample_response :: run_report_response where
  "sample_response = \<lparr>rows = [\<lparr>metric_values = [\<lparr>value = ''5106379''\<rparr>]\<rparr>]\<rparr>"

definition sample_summaries :: "account_summary list" where
  "sample_summaries =
     [\<lparr>account = ''accounts/52835573'', display_name = ''App'',
       property_summaries =
         [\<lparr>property_name = ''properties/182279779'', property_display_name = ''GA4''\<rparr>]\<rparr>]"

definition sample_env :: env where
  "sample_env =
     \<lparr>AnalyticsAdminServiceClient = (\<lambda>c. None),
      list_account_summaries = (\<lambda>c. Inr sample_summaries),
      BetaAnalyticsDataClient = (\<lambda>c. None),
      RunReportRequest = (\<lambda>rq. None),
      run_report = (\<lambda>c rq. Inr sample_response),
      py_repr = (\<lambda>v. ''?''),
      format_exc = (\<lambda>e. ''Traceback (most recent call last):''),
      int_max_str_digits = 4300\<rparr>"

definition failing_env :: env where
  "failing_env = sample_env\<lparr>list_account_summaries := (\<lambda>c. Inl (OtherError ''PermissionDenied'' ''403 denied''))\<rparr>"

definition get_request :: "string option \<Rightarrow> (string \<times> string) list \<Rightarrow> json \<Rightarrow> request" where
  "get_request auth query b =
     \<lparr>http_method = ''GET'', authorization = auth, args = query, get_json = b\<rparr>"

definition options_request :: request where
  "options_request = \<lparr>http_method = ''OPTIONS'', authorization = None, args = [], get_json = JNull\<rparr>"

definition sample_request :: request where
  "sample_request =
     \<lparr>http_method = ''GET'', authorization = Some ''Bearer ya29.token'',
      args = [(''property_id'', ''182279779'')], get_json = JNull\<rparr>"

definition sample_report_request :: run_report_request where
  "sample_report_request =
     \<lparr>property = ''properties/182279779'', metrics = [''sessions''],
      date_ranges = [(JStr ''30daysAgo'', JStr ''today'')]\<rparr>"


section \<open>Reading the Authorization header\<close>

lemma startswith_iff: "startswith s p \<longleftrightarrow> (\<exists>r. s = p @ r)"
proof
  assume "startswith s p"
  then have "take (length p) s = p" by (simp only: startswith_def)
  then have "s = p @ drop (length p) s" by (metis append_take_drop_id)
  then show "\<exists>r. s = p @ r" ..
next
  assume "\<exists>r. s = p @ r"
  then show "startswith s p" by (auto simp: startswith_def)
qed

lemma split1_Bearer: "index (split1 CHR '' '' (''Bearer '' @ r)) (Suc 0) = Inr r"
  by (simp add: index_def)

lemma drop_Bearer: "drop 7 (''Bearer '' @ r) = r"
  by simp

lemma main_credentials:
  "main_get_user_credentials_from_request request =
     (if valid_bearer request
      then Inr (\<lparr>token = bearer_token request,
                 scopes = Some [''https://www.googleapis.com/auth/analytics.readonly'']\<rparr>,
                bearer_token request)
      else Inl (ValueError (if startswith (auth_header_of request) ''Bearer ''
                            then ''Empty bearer token.''
                            else ''Missing/invalid Authorization header. Use: Bearer <ACCESS_TOKEN>'')))"
proof (cases "startswith (auth_header_of request) ''Bearer ''")
  case True
  then obtain r where r: "auth_header_of request = ''Bearer '' @ r"
    using startswith_iff by blast
  have d: "drop 7 (auth_header_of request) = r" by (simp only: r drop_Bearer)
  have i: "index (split1 CHR '' '' (auth_header_of request)) (Suc 0) = Inr r"
    by (simp only: r split1_Bearer)
  show ?thesis
    unfolding main_get_user_credentials_from_request_def valid_bearer_def bearer_token_def
      auth_header_of_def [symmetric]
    using True by (simp add: d i Let_def del: split1.simps)
next
  case False
  then show ?thesis
    unfolding main_get_user_credentials_from_request_def valid_bearer_def bearer_token_def
      auth_header_of_def [symmetric]
    by (simp add: Let_def del: split1.simps)
qed

lemma oauth_credentials:
  "oauth_get_user_credentials_from_request request =
     (if valid_bearer request
      then Inr (\<lparr>token = bearer_token request, scopes = None\<rparr>, bearer_token request)
      else Inl (ValueError (if startswith (auth_header_of request) ''Bearer ''
                            then ''Empty bearer token in Authorization header.''
                            else ''Missing or invalid Authorization header. Expected: '' @ [CHR 0x27]
                               @ ''Authorization: Bearer <ACCESS_TOKEN>'' @ [CHR 0x27])))"
proof (cases "startswith (auth_header_of request) ''Bearer ''")
  case True
  then obtain r where r: "auth_header_of request = ''Bearer '' @ r"
    using startswith_iff by blast
  have d: "drop 7 (auth_header_of request) = r" by (simp only: r drop_Bearer)
  have i: "index (split1 CHR '' '' (auth_header_of request)) (Suc 0) = Inr r"
    by (simp only: r split1_Bearer)
  show ?thesis
    unfolding oauth_get_user_credentials_from_request_def valid_bearer_def bearer_token_def
      auth_header_of_def [symmetric]
    using True by (simp add: d i Let_def del: split1.simps)
next
  case False
  then show ?thesis
    unfolding oauth_get_user_credentials_from_request_def valid_bearer_def bearer_token_def
      auth_header_of_def [symmetric]
    by (simp add: Let_def del: split1.simps)
qed

lemma main_sessions_unauthorized:
  assumes "\<not> valid_bearer request" and "http_method request \<noteq> ''OPTIONS''"
  shows "\<exists>msg. ga4_property_sessions_oauth env request =
           (Inr (Dumps (JObj [(''error'', JStr msg)]), 401, cors_headers), [])"
  using assms
  by (simp add: ga4_property_sessions_oauth_def handle_preflight_def main_credentials)

lemma oauth_sessions_unauthorized:
  assumes "\<not> valid_bearer request"
  shows "\<exists>msg. ga4_property_sessions env request =
           (Inr (Dumps (JObj [(''error'', JStr msg)]), 401, json_headers), [])"
  using assms
  by (simp add: ga4_property_sessions_def oauth_credentials)

lemma oauth_accounts_unauthorized:
  assumes "\<not> valid_bearer request"
  shows "\<exists>msg. ga4_list_accounts env request =
           (Inr (Dumps (JObj [(''error'', JStr msg)]), 401, json_headers), [])"
  using assms
  by (simp add: ga4_list_accounts_def oauth_credentials)

text \<open>
  C4. A request whose Authorization header does not start with \<open>Bearer \<close>, or whose
  token is empty after stripping, gets status 401 with a body holding an \<open>error\<close> field
  and no vendor call, from \<open>ga4_list_accounts\<close> and \<open>ga4_property_sessions\<close> of
  main_oauth.py on every request, and from \<open>ga4_property_sessions_oauth\<close> of main.py on
  every request whose method is not OPTIONS.
\<close>

theorem unauthorized_is_401:
  assumes "\<not> valid_bearer request"
  shows "(\<exists>msg. ga4_list_accounts env request =
            (Inr (Dumps (JObj [(''error'', JStr msg)]), 401, json_headers), []))
       \<and> (\<exists>msg. ga4_property_sessions env request =
            (Inr (Dumps (JObj [(''error'', JStr msg)]), 401, json_headers), []))
       \<and> (http_method request \<noteq> ''OPTIONS'' \<longrightarrow>
            (\<exists>msg. ga4_property_sessions_oauth env request =
               (Inr (Dumps (JObj [(''error'', JStr msg)]), 401, cors_headers), [])))"
  using assms oauth_accounts_unauthorized oauth_sessions_unauthorized main_sessions_unauthorized
  by blast

theorem unauthorized_is_401_witness:
  "\<not> valid_bearer (get_request (Some ''Basic abc'') [] JNull)
   \<and> http_method (get_request (Some ''Basic abc'') [] JNull) \<noteq> ''OPTIONS''
   \<and> (\<exists>msg. ga4_list_accounts sample_env (get_request (Some ''Basic abc'') [] JNull) =
            (Inr (Dumps (JObj [(''error'', JStr msg)]), 401, json_headers), []))
   \<and> (\<exists>msg. ga4_property_sessions sample_env (get_request (Some ''Basic abc'') [] JNull) =
            (Inr (Dumps (JObj [(''error'', JStr msg)]), 401, json_headers), []))
   \<and> (\<exists>msg. ga4_property_sessions_oauth sample_env (get_request (Some ''Basic abc'') [] JNull) =
            (Inr (Dumps (JObj [(''error'', JStr msg)]), 401, cors_headers), []))"
proof -
  have h: "\<not> valid_bearer (get_request (Some ''Basic abc'') [] JNull)"
    by (simp add: valid_bearer_def get_request_def auth_header_of_def startswith_def)
  have m: "http_method (get_request (Some ''Basic abc'') [] JNull) \<noteq> ''OPTIONS''"
    by (simp add: get_request_def)
  show ?thesis
    using h m unauthorized_is_401 [OF h, of sample_env] by blast
qed

text \<open>
  The claim as written covers every request: an OPTIONS request without a bearer token
  gets 204 from the handler of main.py.
\<close>

theorem options_without_bearer_is_204:
  "\<not> valid_bearer options_request
   \<and> ga4_property_sessions_oauth sample_env options_request = (Inr (Text [], 204, cors_headers), [])"
  by (simp add: valid_bearer_def options_request_def auth_header_of_def startswith_def
      ga4_property_sessions_oauth_def handle_preflight_def)

section \<open>Order of the checks and response headers in the bearer-token handlers\<close>

lemma status_of_response [simp]: "status_of (Inr (b, st, hs), calls) = Some st"
  by (simp add: status_of_def)

lemma status_of_raise [simp]: "status_of (Inl e, calls) = None"
  by (simp add: status_of_def)

lemma main_sessions_400_authorized:
  assumes "status_of (ga4_property_sessions_oauth env request) = Some 400"
  shows "valid_bearer request"
proof (rule ccontr)
  assume n: "\<not> valid_bearer request"
  show False
  proof (cases "http_method request = ''OPTIONS''")
    case True
    then have "status_of (ga4_property_sessions_oauth env request) = Some 204"
      by (simp add: ga4_property_sessions_oauth_def handle_preflight_def)
    then show False using assms by simp
  next
    case False
    then obtain msg where "ga4_property_sessions_oauth env request =
        (Inr (Dumps (JObj [(''error'', JStr msg)]), 401, cors_headers), [])"
      using main_sessions_unauthorized [OF n False] by blast
    then show False using assms by simp
  qed
qed

lemma oauth_sessions_400_authorized:
  assumes "status_of (ga4_property_sessions env request) = Some 400"
  shows "valid_bearer request"
proof (rule ccontr)
  assume n: "\<not> valid_bearer request"
  then obtain msg where "ga4_property_sessions env request =
      (Inr (Dumps (JObj [(''error'', JStr msg)]), 401, json_headers), [])"
    using oauth_sessions_unauthorized by blast
  then show False using assms by simp
qed

text \<open>
  C8. Authorization is checked before the parameters: a request that is not OPTIONS and
  has no valid bearer token gets 401 from both bearer-token sessions handlers, whether or
  not it carries \<open>property_id\<close>; and a 400 is only ever returned to a request with a valid
  bearer token.
\<close>

theorem authorization_checked_before_parameters:
  "(\<not> valid_bearer request \<and> http_method request \<noteq> ''OPTIONS'' \<longrightarrow>
      status_of (ga4_property_sessions_oauth env request) = Some 401)
   \<and> (\<not> valid_bearer request \<and> http_method request \<noteq> ''OPTIONS'' \<longrightarrow>
      status_of (ga4_property_sessions env request) = Some 401)
   \<and> (status_of (ga4_property_sessions_oauth env request) = Some 400 \<longrightarrow> valid_bearer request)
   \<and> (status_of (ga4_property_sessions env request) = Some 400 \<longrightarrow> valid_bearer request)"
proof -
  have a: "status_of (ga4_property_sessions_oauth env request) = Some 401"
    if h1: "\<not> valid_bearer request" and h2: "http_method request \<noteq> ''OPTIONS''"
  proof -
    obtain msg where "ga4_property_sessions_oauth env request =
        (Inr (Dumps (JObj [(''error'', JStr msg)]), 401, cors_headers), [])"
      using main_sessions_unauthorized [OF h1 h2] by blast
    then show ?thesis by simp
  qed
  have b: "status_of (ga4_property_sessions env request) = Some 401"
    if h3: "\<not> valid_bearer request"
  proof -
    obtain msg where "ga4_property_sessions env request =
        (Inr (Dumps (JObj [(''error'', JStr msg)]), 401, json_headers), [])"
      using oauth_sessions_unauthorized [OF h3] by blast
    then show ?thesis by simp
  qed
  show ?thesis
    using a b main_sessions_400_authorized oauth_sessions_400_authorized by blast
qed

lemma sample_bearer_valid: "valid_bearer (get_request (Some ''Bearer ya29.token'') q b)"
  by (simp add: valid_bearer_def get_request_def auth_header_of_def startswith_def bearer_token_def
      strip_def py_isspace_def)

lemma sample_bearer_token: "bearer_token (get_request (Some ''Bearer ya29.token'') q b) = ''ya29.token''"
  by (simp add: get_request_def auth_header_of_def bearer_token_def strip_def py_isspace_def)

lemma no_header_invalid: "\<not> valid_bearer (get_request None q b)"
  by (simp add: valid_bearer_def get_request_def auth_header_of_def startswith_def)

theorem authorization_checked_before_parameters_witness:
  "\<not> valid_bearer (get_request None [] JNull)
   \<and> http_method (get_request None [] JNull) \<noteq> ''OPTIONS''
   \<and> \<not> in_query (get_request None [] JNull) ''property_id''
   \<and> \<not> in_body (get_request None [] JNull) ''property_id''
   \<and> status_of (ga4_property_sessions_oauth sample_env (get_request None [] JNull)) = Some 401
   \<and> status_of (ga4_property_sessions sample_env (get_request None [] JNull)) = Some 401
   \<and> status_of (ga4_property_sessions_oauth sample_env (get_request (Some ''Bearer ya29.token'') [] JNull)) = Some 400
   \<and> status_of (ga4_property_sessions sample_env (get_request (Some ''Bearer ya29.token'') [] JNull)) = Some 400
   \<and> valid_bearer (get_request (Some ''Bearer ya29.token'') [] JNull)"
proof -
  have m: "http_method (get_request None [] JNull) \<noteq> ''OPTIONS''"
    by (simp add: get_request_def)
  have q: "\<not> in_query (get_request None [] JNull) ''property_id''"
    "\<not> in_body (get_request None [] JNull) ''property_id''"
    by (simp_all add: in_query_def in_body_def args_get_def get_request_def)
  have s1: "status_of (ga4_property_sessions_oauth sample_env (get_request (Some ''Bearer ya29.token'') [] JNull)) = Some 400"
    by (simp add: ga4_property_sessions_oauth_def handle_preflight_def main_credentials
        sample_bearer_valid main_read_params_def args_get_def py_or_def)
      (simp add: get_request_def py_or_def)
  have s2: "status_of (ga4_property_sessions sample_env (get_request (Some ''Bearer ya29.token'') [] JNull)) = Some 400"
    by (simp add: ga4_property_sessions_def oauth_credentials
        sample_bearer_valid oauth_read_params_def args_get_def py_or_def)
      (simp add: get_request_def py_or_def)
  show ?thesis
    using m q s1 s2 no_header_invalid [of "[]" JNull]
      authorization_checked_before_parameters [of "get_request None [] JNull" sample_env]
      authorization_checked_before_parameters [of "get_request (Some ''Bearer ya29.token'') [] JNull" sample_env]
    by blast
qed

section \<open>The accounts listing\<close>

lemma split_not_empty: "split sep s \<noteq> []"
  by (induction s) (auto split: list.splits)

lemma split_without_sep: "sep \<notin> set s \<Longrightarrow> split sep s = [s]"
  by (induction s) auto

lemma split_with_sep: "sep \<in> set s \<Longrightarrow> tl (split sep s) \<noteq> []"
  by (induction s) (auto simp: split_not_empty split: list.splits)

lemma after_last_Cons_sep:
  "substring_after_last sep (sep # cs) = substring_after_last sep cs"
  by (auto simp: substring_after_last_def takeWhile_append takeWhile_eq_all_conv [THEN iffD2])

lemma after_last_Cons_other:
  "c \<noteq> sep \<Longrightarrow>
   substring_after_last sep (c # cs) =
     (if sep \<in> set cs then substring_after_last sep cs else c # cs)"
  by (auto simp: substring_after_last_def takeWhile_append takeWhile_eq_all_conv [THEN iffD2])

lemma last_split: "last (split sep s) = substring_after_last sep s"
proof (induction s)
  case Nil
  show ?case by (simp add: substring_after_last_def)
next
  case (Cons c cs)
  show ?case
  proof (cases "c = sep")
    case True
    then show ?thesis
      using Cons by (simp add: split_not_empty after_last_Cons_sep)
  next
    case False
    show ?thesis
    proof (cases "sep \<in> set cs")
      case True
      obtain w ws where w: "split sep cs = w # ws"
        using split_not_empty [of sep cs] by (cases "split sep cs") auto
      then have "ws \<noteq> []" using split_with_sep [OF True] by simp
      then show ?thesis
        using Cons False True w by (simp add: after_last_Cons_other)
    next
      case n: False
      then show ?thesis
        using False by (simp add: after_last_Cons_other split_without_sep)
    qed
  qed
qed

lemma property_entry_spec: "property_entry p = Inr (spec_property_json p)"
  by (simp add: property_entry_def index_last_def split_not_empty last_split spec_property_json_def)

lemma properties_loop_spec: "properties_loop acc ps = Inr (acc @ map spec_property_json ps)"
  by (induction ps arbitrary: acc) (simp_all add: property_entry_spec)

lemma account_entry_spec: "account_entry a = Inr (spec_account_json a)"
  by (simp add: account_entry_def properties_loop_spec spec_account_json_def)

lemma accounts_loop_spec: "accounts_loop acc xs = Inr (acc @ map spec_account_json xs)"
  by (induction xs arbitrary: acc) (simp_all add: account_entry_spec)

lemma list_accounts_oauth_try_eq:
  "list_accounts_oauth_try env request =
     (if \<not> valid_bearer request
      then (Inl (ValueError (if startswith (auth_header_of request) ''Bearer ''
                             then ''Empty bearer token.''
                             else ''Missing/invalid Authorization header. Use: Bearer <ACCESS_TOKEN>'')), [])
      else (case AnalyticsAdminServiceClient env (Some (main_creds request)) of
              Some e \<Rightarrow> (Inl e, [New_Admin_Client (Some (main_creds request))])
            | None \<Rightarrow>
                (case list_account_summaries env (Some (main_creds request)) of
                   Inl e \<Rightarrow>
                     (Inl e, [New_Admin_Client (Some (main_creds request)),
                              List_Account_Summaries (Some (main_creds request))])
                 | Inr summaries \<Rightarrow>
                     (Inr (Dumps (JObj [(''accounts'', JList (map spec_account_json summaries))]),
                           200, cors_headers),
                      [New_Admin_Client (Some (main_creds request)),
                       List_Account_Summaries (Some (main_creds request))]))))"
  by (simp add: list_accounts_oauth_try_def main_credentials accounts_loop_spec main_creds_def
      split: option.splits sum.splits)

lemma list_accounts_oauth_headers:
  assumes "fst (ga4_list_accounts_oauth env request) = Inr resp"
  shows "snd (snd resp) = cors_headers"
  using assms
  by (auto simp: ga4_list_accounts_oauth_def list_accounts_oauth_try_eq
      split: if_splits prod.splits sum.splits option.splits)

lemma property_sessions_oauth_headers:
  assumes "fst (ga4_property_sessions_oauth env request) = Inr resp"
  shows "snd (snd resp) = cors_headers"
  using assms
  by (auto simp: ga4_property_sessions_oauth_def handle_preflight_def
      split: if_splits prod.splits sum.splits option.splits)

text \<open>
  C10. Every response a handler of main.py returns carries the four CORS headers, and an
  OPTIONS request is answered with the empty body, status 204 and those headers, whatever
  its Authorization header is and without any vendor call.
\<close>

theorem main_responses_carry_cors_headers:
  "(\<forall>resp. fst (ga4_list_accounts_oauth env request) = Inr resp \<longrightarrow>
       snd (snd resp) =
         [(''Content-Type'', ''application/json''),
          (''Access-Control-Allow-Origin'', ''*''),
          (''Access-Control-Allow-Headers'', ''Authorization, Content-Type''),
          (''Access-Control-Allow-Methods'', ''GET, POST, OPTIONS'')])
   \<and> (\<forall>resp. fst (ga4_property_sessions_oauth env request) = Inr resp \<longrightarrow>
       snd (snd resp) =
         [(''Content-Type'', ''application/json''),
          (''Access-Control-Allow-Origin'', ''*''),
          (''Access-Control-Allow-Headers'', ''Authorization, Content-Type''),
          (''Access-Control-Allow-Methods'', ''GET, POST, OPTIONS'')])
   \<and> (http_method request = ''OPTIONS'' \<longrightarrow>
       ga4_list_accounts_oauth env request =
         (Inr (Text [], 204,
               [(''Content-Type'', ''application/json''),
                (''Access-Control-Allow-Origin'', ''*''),
                (''Access-Control-Allow-Headers'', ''Authorization, Content-Type''),
                (''Access-Control-Allow-Methods'', ''GET, POST, OPTIONS'')]), [])
       \<and> ga4_property_sessions_oauth env request =
         (Inr (Text [], 204,
               [(''Content-Type'', ''application/json''),
                (''Access-Control-Allow-Origin'', ''*''),
                (''Access-Control-Allow-Headers'', ''Authorization, Content-Type''),
                (''Access-Control-Allow-Methods'', ''GET, POST, OPTIONS'')]), []))"
proof -
  have o1: "ga4_list_accounts_oauth env request = (Inr (Text [], 204, cors_headers), [])"
    if "http_method request = ''OPTIONS''"
    using that by (simp add: ga4_list_accounts_oauth_def)
  have o2: "ga4_property_sessions_oauth env request = (Inr (Text [], 204, cors_headers), [])"
    if "http_method request = ''OPTIONS''"
    using that by (simp add: ga4_property_sessions_oauth_def handle_preflight_def)
  show ?thesis
    using o1 o2 list_accounts_oauth_headers [of env request]
      property_sessions_oauth_headers [of env request]
    unfolding cors_headers_def by blast
qed

section \<open>Reading the parameters of a sessions request\<close>

lemma dict_get_body:
  "body_params request = Some kvs \<Longrightarrow>
   dict_get (py_or (get_json request) (JObj [])) k = Inr (lookup_param kvs k)"
  by (cases "get_json request")
    (auto simp: body_params_def py_or_def lookup_param_def split: if_splits)

lemma dict_get_no_body:
  "body_params request = None \<Longrightarrow>
   \<exists>msg. dict_get (py_or (get_json request) (JObj [])) k = Inl (AttributeError msg)"
  by (cases "get_json request") (auto simp: body_params_def py_or_def split: if_splits)

lemma py_or_truthy: "truthy x \<Longrightarrow> py_or x y = x"
  by (simp add: py_or_def)

lemma py_or_falsy: "\<not> truthy x \<Longrightarrow> py_or x y = y"
  by (simp add: py_or_def)


lemma main_read_params_body:
  "\<not> in_query request ''property_id'' \<Longrightarrow> body_params request = Some kvs \<Longrightarrow>
   main_read_params request =
     Inr (lookup_param kvs ''property_id'',
          py_or (args_get request ''start_date'') (lookup_param kvs ''start_date''),
          py_or (args_get request ''end_date'') (lookup_param kvs ''end_date''))"
  by (simp add: main_read_params_def in_query_def dict_get_body py_or_truthy py_or_falsy Let_def)

lemma main_read_params_no_body:
  "\<not> in_query request ''property_id'' \<Longrightarrow> body_params request = None \<Longrightarrow>
   \<exists>msg. main_read_params request = Inl (AttributeError msg)"
  using dict_get_no_body [of request "''property_id''"]
  by (auto simp: main_read_params_def in_query_def Let_def)

lemma oauth_read_params_eq: "oauth_read_params request = main_read_params request"
  by (simp add: oauth_read_params_def main_read_params_def)

lemma old_read_params_eq: "old_read_params request = main_read_params request"
  by (simp add: old_read_params_def main_read_params_def)

section \<open>The report and the three sessions handlers\<close>

lemma main_total_spec:
  "main_total_sessions env response = Inr n \<longleftrightarrow> reported_sessions env response = Some n"
  by (cases "rows response"; cases "metric_values (hd (rows response))")
    (auto simp: main_total_sessions_def first_metric_int_def index_def reported_sessions_def
      split: sum.splits)





lemma main_handler_report:
  assumes "valid_bearer request" and "http_method request \<noteq> ''OPTIONS''"
    and "main_read_params request = Inr (pid, sd, ed)" and "truthy pid"
  shows "ga4_property_sessions_oauth env request =
           (case main_report env (main_creds request) pid
                   (py_or sd (JStr ''30daysAgo'')) (py_or ed (JStr ''today'')) of
              (Inl e, calls) \<Rightarrow> (Inl e, calls)
            | (Inr result, calls) \<Rightarrow> (Inr (Dumps result, 200, cors_headers), calls))"
  using assms
  by (simp add: ga4_property_sessions_oauth_def handle_preflight_def main_credentials main_creds_def)

lemma main_handler_400:
  assumes "valid_bearer request" and "http_method request \<noteq> ''OPTIONS''"
    and "main_read_params request = Inr (pid, sd, ed)" and "\<not> truthy pid"
  shows "ga4_property_sessions_oauth env request =
           (Inr (Dumps (JObj [(''error'', JStr ''Missing required parameter: property_id'')]),
                 400, cors_headers), [])"
  using assms
  by (simp add: ga4_property_sessions_oauth_def handle_preflight_def main_credentials)









lemma oauth_handler_400:
  assumes "valid_bearer request"
    and "main_read_params request = Inr (pid, sd, ed)" and "\<not> truthy pid"
  shows "ga4_property_sessions env request =
           (Inr (Dumps (JObj [(''error'', JStr ''Missing required parameter: property_id'')]),
                 400, json_headers), [])"
  using assms
  by (simp add: ga4_property_sessions_def oauth_credentials oauth_read_params_eq)









lemma old_handler_400:
  assumes "main_read_params request = Inr (pid, sd, ed)" and "\<not> truthy pid"
  shows "old_ga4_property_sessions env request =
           (Inr (Dumps (JObj [(''error'', JStr ''Missing required parameter: property_id'')]),
                 400, json_headers), [])"
  using assms
  by (simp add: old_ga4_property_sessions_def old_read_params_eq)



lemma main_handler_success:
  assumes "valid_bearer request" and "http_method request \<noteq> ''OPTIONS''"
    and "main_read_params request = Inr (pid, sd, ed)" and "truthy pid"
    and "rq = \<lparr>property = ''properties/'' @ format_value env pid, metrics = [''sessions''],
               date_ranges = [(py_or sd (JStr ''30daysAgo''), py_or ed (JStr ''today''))]\<rparr>"
    and "BetaAnalyticsDataClient env (Some (main_creds request)) = None"
    and "RunReportRequest env rq = None"
    and "run_report env (Some (main_creds request)) rq = Inr response"
    and "reported_sessions env response = Some n"
  shows "ga4_property_sessions_oauth env request =
           (Inr (Dumps (JObj [(''propertyId'', pid),
                              (''dateRange'', JObj [(''start_date'', py_or sd (JStr ''30daysAgo'')),
                                                    (''end_date'', py_or ed (JStr ''today''))]),
                              (''metrics'', JObj [(''sessions'', JInt n)])]),
                 200, cors_headers),
            [New_Data_Client (Some (main_creds request)), New_Run_Report_Request rq,
             Run_Report (Some (main_creds request)) rq])"
proof -
  have t: "main_total_sessions env response = Inr n"
    using assms(9) by (simp add: main_total_spec)
  show ?thesis
    using assms(5-8) t
    by (simp add: main_handler_report [OF assms(1-4)] main_report_def Let_def)
qed







section \<open>The sample request\<close>

lemma sample_request_facts:
  "valid_bearer sample_request"
  "http_method sample_request \<noteq> ''OPTIONS''"
  "bearer_token sample_request = ''ya29.token''"
  "main_read_params sample_request = Inr (JStr ''182279779'', JNull, JNull)"
  "in_query sample_request ''property_id''"
  "\<not> in_query sample_request ''start_date''" "\<not> in_query sample_request ''end_date''"
  "\<not> in_body sample_request ''start_date''" "\<not> in_body sample_request ''end_date''"
  by (simp_all add: sample_request_def valid_bearer_def auth_header_of_def startswith_def
      bearer_token_def strip_def py_isspace_def main_read_params_def args_get_def in_query_def
      in_body_def)

lemma sample_env_facts:
  "AnalyticsAdminServiceClient sample_env c = None"
  "list_account_summaries sample_env c = Inr sample_summaries"
  "BetaAnalyticsDataClient sample_env c = None"
  "RunReportRequest sample_env rq = None"
  "run_report sample_env c rq = Inr sample_response"
  "int_max_str_digits sample_env = 4300"
  by (simp_all add: sample_env_def)

lemma sample_reported: "reported_sessions sample_env sample_response = Some 5106379"
  by (simp add: reported_sessions_def sample_response_def sample_env_def py_int_def strip_def
      py_isspace_def parse_digits_def is_digit_def digit_val_def Let_def)

lemma sample_main_outcome:
  "ga4_property_sessions_oauth sample_env sample_request =
     (Inr (Dumps (JObj [(''propertyId'', JStr ''182279779''),
                        (''dateRange'', JObj [(''start_date'', JStr ''30daysAgo''),
                                              (''end_date'', JStr ''today'')]),
                        (''metrics'', JObj [(''sessions'', JInt 5106379)])]),
           200, cors_headers),
      [New_Data_Client (Some (main_creds sample_request)),
       New_Run_Report_Request sample_report_request,
       Run_Report (Some (main_creds sample_request)) sample_report_request])"
  using main_handler_success [OF sample_request_facts(1,2,4) _ _ sample_env_facts(3,4,5) sample_reported,
      of sample_report_request]
  by (simp add: sample_report_request_def format_value_def py_or_def)




section \<open>The session count of a report\<close>



lemma sample_accounts_main_outcome:
  "ga4_list_accounts_oauth sample_env sample_request =
     (Inr (Dumps (JObj [(''accounts'', JList (map spec_account_json sample_summaries))]),
           200, cors_headers),
      [New_Admin_Client (Some (main_creds sample_request)),
       List_Account_Summaries (Some (main_creds sample_request))])"
  by (simp add: ga4_list_accounts_oauth_def list_accounts_oauth_try_eq sample_request_facts
      sample_env_facts)

theorem main_responses_carry_cors_headers_witness:
  "fst (ga4_list_accounts_oauth sample_env sample_request) =
     Inr (Dumps (JObj [(''accounts'', JList (map spec_account_json sample_summaries))]), 200,
          [(''Content-Type'', ''application/json''),
           (''Access-Control-Allow-Origin'', ''*''),
           (''Access-Control-Allow-Headers'', ''Authorization, Content-Type''),
           (''Access-Control-Allow-Methods'', ''GET, POST, OPTIONS'')])
   \<and> fst (ga4_property_sessions_oauth sample_env sample_request) =
     Inr (Dumps (JObj [(''propertyId'', JStr ''182279779''),
                       (''dateRange'', JObj [(''start_date'', JStr ''30daysAgo''),
                                             (''end_date'', JStr ''today'')]),
                       (''metrics'', JObj [(''sessions'', JInt 5106379)])]), 200,
          [(''Content-Type'', ''application/json''),
           (''Access-Control-Allow-Origin'', ''*''),
           (''Access-Control-Allow-Headers'', ''Authorization, Content-Type''),
           (''Access-Control-Allow-Methods'', ''GET, POST, OPTIONS'')])
   \<and> http_method options_request = ''OPTIONS''
   \<and> ga4_list_accounts_oauth sample_env options_request =
         (Inr (Text [], 204,
               [(''Content-Type'', ''application/json''),
                (''Access-Control-Allow-Origin'', ''*''),
                (''Access-Control-Allow-Headers'', ''Authorization, Content-Type''),
                (''Access-Control-Allow-Methods'', ''GET, POST, OPTIONS'')]), [])
   \<and> ga4_property_sessions_oauth sample_env options_request =
         (Inr (Text [], 204,
               [(''Content-Type'', ''application/json''),
                (''Access-Control-Allow-Origin'', ''*''),
                (''Access-Control-Allow-Headers'', ''Authorization, Content-Type''),
                (''Access-Control-Allow-Methods'', ''GET, POST, OPTIONS'')]), [])"
proof -
  have m: "http_method options_request = ''OPTIONS''"
    by (simp add: options_request_def)
  have a: "fst (ga4_list_accounts_oauth sample_env sample_request) =
      Inr (Dumps (JObj [(''accounts'', JList (map spec_account_json sample_summaries))]), 200, cors_headers)"
    by (simp add: sample_accounts_main_outcome)
  have b: "fst (ga4_property_sessions_oauth sample_env sample_request) =
      Inr (Dumps (JObj [(''propertyId'', JStr ''182279779''),
                       (''dateRange'', JObj [(''start_date'', JStr ''30daysAgo''),
                                             (''end_date'', JStr ''today'')]),
                       (''metrics'', JObj [(''sessions'', JInt 5106379)])]), 200, cors_headers)"
    by (simp add: sample_main_outcome)
  show ?thesis
    using m a b main_responses_carry_cors_headers [of sample_env sample_request]
      main_responses_carry_cors_headers [of sample_env options_request]
    unfolding cors_headers_def by blast
qed

section \<open>The default date range\<close>


lemma not_in_body_params:
  assumes "\<not> in_body request k" and "body_params request = Some kvs"
  shows "\<not> truthy (lookup_param kvs k)"
  using assms
  by (cases "get_json request")
    (auto simp: in_body_def body_params_def lookup_param_def split: option.splits if_splits)







section \<open>The accounts handlers\<close>

lemma substring_after_last_append:
  "sep \<notin> set b \<Longrightarrow> substring_after_last sep (a @ sep # b) = b"
  by (simp add: substring_after_last_def takeWhile_append takeWhile_eq_all_conv [THEN iffD2])

lemma substring_after_last_none:
  "sep \<notin> set s \<Longrightarrow> substring_after_last sep s = s"
proof -
  assume "sep \<notin> set s"
  then have "takeWhile (\<lambda>c. c \<noteq> sep) (rev s) = rev s"
    by (intro takeWhile_eq_all_conv [THEN iffD2]) auto
  then show ?thesis by (simp only: substring_after_last_def rev_rev_ident)
qed

lemma old_list_accounts_eq:
  "old_ga4_list_accounts env request =
     (case AnalyticsAdminServiceClient env None of
        Some e \<Rightarrow> (Inl e, [New_Admin_Client None])
      | None \<Rightarrow>
          (case list_account_summaries env None of
             Inl e \<Rightarrow> (Inl e, [New_Admin_Client None, List_Account_Summaries None])
           | Inr summaries \<Rightarrow>
               (Inr (Dumps (JObj [(''accounts'', JList (map spec_account_json summaries))]),
                     200, json_headers),
                [New_Admin_Client None, List_Account_Summaries None])))"
  by (simp add: old_ga4_list_accounts_def accounts_loop_spec split: option.splits sum.splits)

lemma accounts_main_eq:
  "accounts_main env =
     (case AnalyticsAdminServiceClient env None of
        Some e \<Rightarrow> (Inl e, [New_Admin_Client None])
      | None \<Rightarrow>
          (case list_account_summaries env None of
             Inl e \<Rightarrow> (Inl e, [New_Admin_Client None, List_Account_Summaries None])
           | Inr summaries \<Rightarrow>
               (Inr (JObj [(''accounts'', JList (map spec_account_json summaries))]),
                [New_Admin_Client None, List_Account_Summaries None])))"
  by (simp add: accounts_main_def accounts_loop_spec split: option.splits sum.splits)

lemma oauth_list_accounts_eq:
  "valid_bearer request \<Longrightarrow>
   ga4_list_accounts env request =
     (case AnalyticsAdminServiceClient env (Some (oauth_creds request)) of
        Some e \<Rightarrow> (Inl e, [New_Admin_Client (Some (oauth_creds request))])
      | None \<Rightarrow>
          (case list_account_summaries env (Some (oauth_creds request)) of
             Inl e \<Rightarrow> (Inl e, [New_Admin_Client (Some (oauth_creds request)),
                              List_Account_Summaries (Some (oauth_creds request))])
           | Inr summaries \<Rightarrow>
               (Inr (Dumps (JObj [(''accounts'', JList (map spec_account_json summaries))]),
                     200, json_headers),
                [New_Admin_Client (Some (oauth_creds request)),
                 List_Account_Summaries (Some (oauth_creds request))])))"
  by (simp add: ga4_list_accounts_def oauth_credentials oauth_creds_def accounts_loop_spec
      split: option.splits sum.splits)

text \<open>
  C7. When the vendor's \<open>list_account_summaries\<close> returns a sequence of account summaries,
  the accounts listing answers 200 with the body \<open>{"accounts": [...]}\<close> whose entries
  follow the vendor's order, one per summary: the summary's account and display name
  unchanged, and one entry per property with the resource name unchanged and \<open>propertyId\<close>
  the part of the resource name after its last \<open>/\<close>. This holds for the handler of
  main_old.py and the script accounts.py (no credentials), and for the bearer-token
  handlers of main_oauth.py and main.py on a request they accept.
\<close>

theorem accounts_listing_maps_summaries:
  assumes "AnalyticsAdminServiceClient env c = None"
    and "list_account_summaries env c = Inr summaries"
  shows "(c = None \<longrightarrow>
            fst (old_ga4_list_accounts env request) =
              Inr (Dumps (JObj [(''accounts'', JList (map spec_account_json summaries))]),
                   200, json_headers)
          \<and> fst (accounts_main env) =
              Inr (JObj [(''accounts'', JList (map spec_account_json summaries))]))
       \<and> (valid_bearer request \<and> c = Some (oauth_creds request) \<longrightarrow>
            fst (ga4_list_accounts env request) =
              Inr (Dumps (JObj [(''accounts'', JList (map spec_account_json summaries))]),
                   200, json_headers))
       \<and> (valid_bearer request \<and> http_method request \<noteq> ''OPTIONS''
            \<and> c = Some (main_creds request) \<longrightarrow>
            fst (ga4_list_accounts_oauth env request) =
              Inr (Dumps (JObj [(''accounts'', JList (map spec_account_json summaries))]),
                   200, cors_headers))
       \<and> (\<forall>a \<in> set summaries.
            spec_account_json a =
              JObj [(''account'', JStr (account a)),
                    (''displayName'', JStr (display_name a)),
                    (''properties'', JList (map spec_property_json (property_summaries a)))]
            \<and> (\<forall>p \<in> set (property_summaries a).
                 spec_property_json p =
                   JObj [(''property'', JStr (property_name p)),
                         (''propertyId'', JStr (substring_after_last CHR ''/'' (property_name p))),
                         (''displayName'', JStr (property_display_name p))]))"
proof (intro conjI impI)
  assume "c = None"
  then show "fst (old_ga4_list_accounts env request) =
      Inr (Dumps (JObj [(''accounts'', JList (map spec_account_json summaries))]), 200, json_headers)"
    using assms by (simp add: old_list_accounts_eq)
next
  assume "c = None"
  then show "fst (accounts_main env) =
      Inr (JObj [(''accounts'', JList (map spec_account_json summaries))])"
    using assms by (simp add: accounts_main_eq)
next
  assume "valid_bearer request \<and> c = Some (oauth_creds request)"
  then show "fst (ga4_list_accounts env request) =
      Inr (Dumps (JObj [(''accounts'', JList (map spec_account_json summaries))]), 200, json_headers)"
    using assms by (simp add: oauth_list_accounts_eq)
next
  assume "valid_bearer request \<and> http_method request \<noteq> ''OPTIONS'' \<and> c = Some (main_creds request)"
  then show "fst (ga4_list_accounts_oauth env request) =
      Inr (Dumps (JObj [(''accounts'', JList (map spec_account_json summaries))]), 200, cors_headers)"
    using assms by (simp add: ga4_list_accounts_oauth_def list_accounts_oauth_try_eq)
next
  show "\<forall>a \<in> set summaries.
            spec_account_json a =
              JObj [(''account'', JStr (account a)),
                    (''displayName'', JStr (display_name a)),
                    (''properties'', JList (map spec_property_json (property_summaries a)))]
            \<and> (\<forall>p \<in> set (property_summaries a).
                 spec_property_json p =
                   JObj [(''property'', JStr (property_name p)),
                         (''propertyId'', JStr (substring_after_last CHR ''/'' (property_name p))),
                         (''displayName'', JStr (property_display_name p))])"
    by (simp add: spec_account_json_def spec_property_json_def)
qed

theorem accounts_listing_maps_summaries_witness:
  "AnalyticsAdminServiceClient sample_env None = None
   \<and> list_account_summaries sample_env None = Inr sample_summaries
   \<and> valid_bearer sample_request \<and> http_method sample_request \<noteq> ''OPTIONS''
   \<and> fst (old_ga4_list_accounts sample_env sample_request) =
        Inr (Dumps (JObj [(''accounts'',
               JList [JObj [(''account'', JStr ''accounts/52835573''),
                            (''displayName'', JStr ''App''),
                            (''properties'',
                             JList [JObj [(''property'', JStr ''properties/182279779''),
                                          (''propertyId'', JStr ''182279779''),
                                          (''displayName'', JStr ''GA4'')]])]])]),
             200, json_headers)
   \<and> fst (ga4_list_accounts sample_env sample_request) =
        Inr (Dumps (JObj [(''accounts'', JList (map spec_account_json sample_summaries))]),
             200, json_headers)
   \<and> fst (ga4_list_accounts_oauth sample_env sample_request) =
        Inr (Dumps (JObj [(''accounts'', JList (map spec_account_json sample_summaries))]),
             200, cors_headers)"
proof -
  have s: "map spec_account_json sample_summaries =
      [JObj [(''account'', JStr ''accounts/52835573''),
             (''displayName'', JStr ''App''),
             (''properties'',
              JList [JObj [(''property'', JStr ''properties/182279779''),
                           (''propertyId'', JStr ''182279779''),
                           (''displayName'', JStr ''GA4'')]])]]"
    by (simp add: sample_summaries_def spec_account_json_def spec_property_json_def
        substring_after_last_def)
  note t0 = accounts_listing_maps_summaries [OF sample_env_facts(1,2), of None sample_request]
  note t1 = accounts_listing_maps_summaries [OF sample_env_facts(1,2),
      of "Some (oauth_creds sample_request)" sample_request]
  note t2 = accounts_listing_maps_summaries [OF sample_env_facts(1,2),
      of "Some (main_creds sample_request)" sample_request]
  have a: "fst (old_ga4_list_accounts sample_env sample_request) =
      Inr (Dumps (JObj [(''accounts'', JList (map spec_account_json sample_summaries))]), 200, json_headers)"
    using t0 by simp
  have b: "fst (ga4_list_accounts sample_env sample_request) =
      Inr (Dumps (JObj [(''accounts'', JList (map spec_account_json sample_summaries))]), 200, json_headers)"
    using t1 sample_request_facts(1) by simp
  have c: "fst (ga4_list_accounts_oauth sample_env sample_request) =
      Inr (Dumps (JObj [(''accounts'', JList (map spec_account_json sample_summaries))]), 200, cors_headers)"
    using t2 sample_request_facts(1,2) by simp
  show ?thesis
    using a b c sample_request_facts(1,2) sample_env_facts(1,2) by (simp add: s)
qed

text \<open>
  C6. In \<open>ga4_list_accounts_oauth\<close> every exception raised after the preflight check
  becomes a response with status 500, the CORS headers, and a body holding the exception
  message under \<open>error\<close> and the formatted stack trace under \<open>traceback\<close>: the
  \<open>ValueError\<close> of a rejected Authorization header, an exception of the client
  constructor and an exception of \<open>list_account_summaries\<close> alike. No exception leaves
  the handler.
\<close>

theorem list_accounts_oauth_exceptions_become_500:
  assumes "http_method request \<noteq> ''OPTIONS''"
  shows "(\<forall>e calls. list_accounts_oauth_try env request = (Inl e, calls) \<longrightarrow>
            ga4_list_accounts_oauth env request =
              (Inr (Dumps (JObj [(''error'', JStr (exn_str e)),
                                 (''traceback'', JStr (format_exc env e))]),
                    500, cors_headers), calls))
       \<and> (\<not> valid_bearer request \<longrightarrow>
            (\<exists>msg. ga4_list_accounts_oauth env request =
               (Inr (Dumps (JObj [(''error'', JStr msg),
                                  (''traceback'', JStr (format_exc env (ValueError msg)))]),
                     500, cors_headers), [])))
       \<and> (\<forall>e. valid_bearer request
              \<and> AnalyticsAdminServiceClient env (Some (main_creds request)) = Some e \<longrightarrow>
            ga4_list_accounts_oauth env request =
              (Inr (Dumps (JObj [(''error'', JStr (exn_str e)),
                                 (''traceback'', JStr (format_exc env e))]),
                    500, cors_headers),
               [New_Admin_Client (Some (main_creds request))]))
       \<and> (\<forall>e. valid_bearer request
              \<and> AnalyticsAdminServiceClient env (Some (main_creds request)) = None
              \<and> list_account_summaries env (Some (main_creds request)) = Inl e \<longrightarrow>
            ga4_list_accounts_oauth env request =
              (Inr (Dumps (JObj [(''error'', JStr (exn_str e)),
                                 (''traceback'', JStr (format_exc env e))]),
                    500, cors_headers),
               [New_Admin_Client (Some (main_creds request)),
                List_Account_Summaries (Some (main_creds request))]))
       \<and> (\<exists>resp calls. ga4_list_accounts_oauth env request = (Inr resp, calls))"
proof (intro conjI allI impI)
  fix e calls
  assume "list_accounts_oauth_try env request = (Inl e, calls)"
  then show "ga4_list_accounts_oauth env request =
              (Inr (Dumps (JObj [(''error'', JStr (exn_str e)),
                                 (''traceback'', JStr (format_exc env e))]),
                    500, cors_headers), calls)"
    using assms by (simp add: ga4_list_accounts_oauth_def)
next
  assume "\<not> valid_bearer request"
  then show "\<exists>msg. ga4_list_accounts_oauth env request =
               (Inr (Dumps (JObj [(''error'', JStr msg),
                                  (''traceback'', JStr (format_exc env (ValueError msg)))]),
                     500, cors_headers), [])"
    using assms by (simp add: ga4_list_accounts_oauth_def list_accounts_oauth_try_eq)
next
  fix e
  assume "valid_bearer request
              \<and> AnalyticsAdminServiceClient env (Some (main_creds request)) = Some e"
  then show "ga4_list_accounts_oauth env request =
              (Inr (Dumps (JObj [(''error'', JStr (exn_str e)),
                                 (''traceback'', JStr (format_exc env e))]),
                    500, cors_headers),
               [New_Admin_Client (Some (main_creds request))])"
    using assms by (simp add: ga4_list_accounts_oauth_def list_accounts_oauth_try_eq)
next
  fix e
  assume "valid_bearer request
              \<and> AnalyticsAdminServiceClient env (Some (main_creds request)) = None
              \<and> list_account_summaries env (Some (main_creds request)) = Inl e"
  then show "ga4_list_accounts_oauth env request =
              (Inr (Dumps (JObj [(''error'', JStr (exn_str e)),
                                 (''traceback'', JStr (format_exc env e))]),
                    500, cors_headers),
               [New_Admin_Client (Some (main_creds request)),
                List_Account_Summaries (Some (main_creds request))])"
    using assms by (simp add: ga4_list_accounts_oauth_def list_accounts_oauth_try_eq)
next
  show "\<exists>resp calls. ga4_list_accounts_oauth env request = (Inr resp, calls)"
    by (cases "list_accounts_oauth_try env request"; cases "fst (list_accounts_oauth_try env request)")
      (auto simp: ga4_list_accounts_oauth_def)
qed

theorem list_accounts_oauth_exceptions_become_500_witness:
  "http_method sample_request \<noteq> ''OPTIONS''
   \<and> valid_bearer sample_request
   \<and> AnalyticsAdminServiceClient failing_env (Some (main_creds sample_request)) = None
   \<and> list_account_summaries failing_env (Some (main_creds sample_request)) =
        Inl (OtherError ''PermissionDenied'' ''403 denied'')
   \<and> ga4_list_accounts_oauth failing_env sample_request =
        (Inr (Dumps (JObj [(''error'', JStr ''403 denied''),
                           (''traceback'', JStr ''Traceback (most recent call last):'')]),
              500, cors_headers),
         [New_Admin_Client (Some (main_creds sample_request)),
          List_Account_Summaries (Some (main_creds sample_request))])
   \<and> http_method (get_request None [] JNull) \<noteq> ''OPTIONS''
   \<and> \<not> valid_bearer (get_request None [] JNull)
   \<and> (\<exists>msg. ga4_list_accounts_oauth failing_env (get_request None [] JNull) =
          (Inr (Dumps (JObj [(''error'', JStr msg),
                             (''traceback'', JStr (format_exc failing_env (ValueError msg)))]),
                500, cors_headers), []))"
proof -
  have f: "AnalyticsAdminServiceClient failing_env (Some (main_creds sample_request)) = None"
    "list_account_summaries failing_env (Some (main_creds sample_request)) =
        Inl (OtherError ''PermissionDenied'' ''403 denied'')"
    "format_exc failing_env (OtherError ''PermissionDenied'' ''403 denied'') =
        ''Traceback (most recent call last):''"
    by (simp_all add: failing_env_def sample_env_def)
  have m: "http_method (get_request None [] JNull) \<noteq> ''OPTIONS''"
    by (simp add: get_request_def)
  note t1 = list_accounts_oauth_exceptions_become_500 [OF sample_request_facts(2), of failing_env]
  note t2 = list_accounts_oauth_exceptions_become_500 [OF m, of failing_env]
  have a: "ga4_list_accounts_oauth failing_env sample_request =
        (Inr (Dumps (JObj [(''error'', JStr ''403 denied''),
                           (''traceback'', JStr ''Traceback (most recent call last):'')]),
              500, cors_headers),
         [New_Admin_Client (Some (main_creds sample_request)),
          List_Account_Summaries (Some (main_creds sample_request))])"
    using t1 [THEN conjunct2, THEN conjunct2, THEN conjunct2, THEN conjunct1, rule_format,
        of "OtherError ''PermissionDenied'' ''403 denied''"] f sample_request_facts(1)
    by simp
  have b: "\<exists>msg. ga4_list_accounts_oauth failing_env (get_request None [] JNull) =
          (Inr (Dumps (JObj [(''error'', JStr msg),
                             (''traceback'', JStr (format_exc failing_env (ValueError msg)))]),
                500, cors_headers), [])"
    using t2 [THEN conjunct2, THEN conjunct1] no_header_invalid [of "[]" JNull] by blast
  show ?thesis
    by (intro conjI sample_request_facts(1,2) f(1,2) a m no_header_invalid b)
qed

section \<open>A request without property_id\<close>

text \<open>
  C5. A request whose \<open>property_id\<close> is absent or empty in the query string, and whose
  JSON body is missing, falsy or an object without a truthy \<open>property_id\<close>, gets status
  400 with the body \<open>{"error": "Missing required parameter: property_id"}\<close> and no
  vendor call: from the handler of main_old.py always, from the bearer-token handlers once
  the request has passed their earlier checks (a valid bearer token, and for main.py a
  method other than OPTIONS).
\<close>

theorem missing_property_id_is_400:
  assumes "\<not> in_query request ''property_id''"
    and "\<not> in_body request ''property_id''"
    and "body_params request = Some kvs"
  shows "old_ga4_property_sessions env request =
           (Inr (Dumps (JObj [(''error'', JStr ''Missing required parameter: property_id'')]),
                 400, json_headers), [])
       \<and> (valid_bearer request \<longrightarrow>
            ga4_property_sessions env request =
              (Inr (Dumps (JObj [(''error'', JStr ''Missing required parameter: property_id'')]),
                    400, json_headers), []))
       \<and> (valid_bearer request \<and> http_method request \<noteq> ''OPTIONS'' \<longrightarrow>
            ga4_property_sessions_oauth env request =
              (Inr (Dumps (JObj [(''error'', JStr ''Missing required parameter: property_id'')]),
                    400, cors_headers), []))"
proof -
  have f: "\<not> truthy (lookup_param kvs ''property_id'')"
    using not_in_body_params [OF assms(2,3)] .
  note p = main_read_params_body [OF assms(1,3)]
  show ?thesis
    using old_handler_400 [OF p f, of env] oauth_handler_400 [OF _ p f, of env]
      main_handler_400 [OF _ _ p f, of env]
    by blast
qed

theorem missing_property_id_is_400_witness:
  "\<not> in_query (get_request (Some ''Bearer ya29.token'') [] (JObj [(''start_date'', JStr ''today'')]))
        ''property_id''
   \<and> \<not> in_body (get_request (Some ''Bearer ya29.token'') [] (JObj [(''start_date'', JStr ''today'')]))
        ''property_id''
   \<and> body_params (get_request (Some ''Bearer ya29.token'') [] (JObj [(''start_date'', JStr ''today'')]))
        = Some [(''start_date'', JStr ''today'')]
   \<and> valid_bearer (get_request (Some ''Bearer ya29.token'') [] (JObj [(''start_date'', JStr ''today'')]))
   \<and> http_method (get_request (Some ''Bearer ya29.token'') [] (JObj [(''start_date'', JStr ''today'')]))
        \<noteq> ''OPTIONS''
   \<and> old_ga4_property_sessions sample_env
        (get_request (Some ''Bearer ya29.token'') [] (JObj [(''start_date'', JStr ''today'')])) =
        (Inr (Dumps (JObj [(''error'', JStr ''Missing required parameter: property_id'')]),
              400, json_headers), [])
   \<and> ga4_property_sessions sample_env
        (get_request (Some ''Bearer ya29.token'') [] (JObj [(''start_date'', JStr ''today'')])) =
        (Inr (Dumps (JObj [(''error'', JStr ''Missing required parameter: property_id'')]),
              400, json_headers), [])
   \<and> ga4_property_sessions_oauth sample_env
        (get_request (Some ''Bearer ya29.token'') [] (JObj [(''start_date'', JStr ''today'')])) =
        (Inr (Dumps (JObj [(''error'', JStr ''Missing required parameter: property_id'')]),
              400, cors_headers), [])"
proof -
  define r where "r = get_request (Some ''Bearer ya29.token'') [] (JObj [(''start_date'', JStr ''today'')])"
  have h: "\<not> in_query r ''property_id''" "\<not> in_body r ''property_id''"
    "body_params r = Some [(''start_date'', JStr ''today'')]"
    "http_method r \<noteq> ''OPTIONS''"
    by (simp_all add: r_def get_request_def in_query_def in_body_def args_get_def body_params_def)
  have v: "valid_bearer r"
    unfolding r_def by (rule sample_bearer_valid)
  note t = missing_property_id_is_400 [OF h(1,2,3), of sample_env]
  have "\<not> in_query r ''property_id'' \<and> \<not> in_body r ''property_id''
   \<and> body_params r = Some [(''start_date'', JStr ''today'')]
   \<and> valid_bearer r \<and> http_method r \<noteq> ''OPTIONS''
   \<and> old_ga4_property_sessions sample_env r =
        (Inr (Dumps (JObj [(''error'', JStr ''Missing required parameter: property_id'')]),
              400, json_headers), [])
   \<and> ga4_property_sessions sample_env r =
        (Inr (Dumps (JObj [(''error'', JStr ''Missing required parameter: property_id'')]),
              400, json_headers), [])
   \<and> ga4_property_sessions_oauth sample_env r =
        (Inr (Dumps (JObj [(''error'', JStr ''Missing required parameter: property_id'')]),
              400, cors_headers), [])"
    using h v t by blast
  then show ?thesis unfolding r_def .
qed

text \<open>
  The claim as written promises the 400 to every request without \<open>property_id\<close>: a
  request that also lacks the Authorization header is answered 401 by the bearer-token
  handler, which checks the header first.
\<close>

theorem missing_property_id_unauthorized_is_401:
  "\<not> in_query (get_request None [] JNull) ''property_id''
   \<and> \<not> in_body (get_request None [] JNull) ''property_id''
   \<and> status_of (ga4_property_sessions sample_env (get_request None [] JNull)) = Some 401
   \<and> snd (ga4_property_sessions sample_env (get_request None [] JNull)) = []"
proof -
  obtain msg where "ga4_property_sessions sample_env (get_request None [] JNull) =
      (Inr (Dumps (JObj [(''error'', JStr msg)]), 401, json_headers), [])"
    using oauth_sessions_unauthorized [OF no_header_invalid] by blast
  then show ?thesis
    by (simp add: in_query_def in_body_def args_get_def get_request_def)
qed

text \<open>
  A body that is neither an object nor falsy (a non-empty JSON array, say) makes
  \<open>data.get\<close> raise: the handlers let an \<open>AttributeError\<close> escape instead of answering.
\<close>

lemma non_object_body_raises:
  "old_ga4_property_sessions env (get_request auth [] (JList [JInt 1])) =
     (Inl (AttributeError ([CHR 0x27] @ ''list'' @ [CHR 0x27] @ '' object has no attribute ''
                           @ [CHR 0x27] @ ''get'' @ [CHR 0x27])), [])"
  by (simp add: old_ga4_property_sessions_def old_read_params_def args_get_def get_request_def
      py_or_def)

section \<open>Query string and JSON body\<close>











section \<open>The two bearer-token sessions handlers side by side\<close>

lemma outcome_parts [simp]:
  "body_of (Inr (b, st, hs), calls) = Some b"
  "body_of (Inl e, calls) = None"
  "headers_of (Inr (b, st, hs), calls) = Some hs"
  "headers_of (Inl e, calls) = None"
  "raised_of (Inr (b, st, hs), calls) = None"
  "raised_of (Inl e, calls) = Some e"
  by (simp_all add: body_of_def headers_of_def raised_of_def)







end
